theory Spec2Isabelle
  imports Complex_Main "HOL-Library.Sublist"
begin

section \<open>JSON payloads and JavaScript truthiness\<close>

text \<open>
  The structured payload of a reply (\<^verbatim>\<open>data?: any\<close>) is a JSON value. JSON numbers are
  decimal literals, so they are rationals here. An absent property (\<^verbatim>\<open>undefined\<close>) is
  \<open>None\<close> of \<open>json option\<close>. An object is the list of its properties; the first binding
  of a key is the property's value.
\<close>

datatype json =
    JNull
  | JBool bool
  | JNum rat
  | JStr string
  | JArr "json list"
  | JObj "(string \<times> json) list"

text \<open>
  \<^verbatim>\<open>v?.key\<close> for the two keys the chat component reads (\<^verbatim>\<open>clear_cart\<close>, \<^verbatim>\<open>products\<close>):
  \<^verbatim>\<open>undefined\<close> when \<open>v\<close> is \<^verbatim>\<open>undefined\<close> or \<^verbatim>\<open>null\<close> (optional chaining), the property
  of an object, and \<^verbatim>\<open>undefined\<close> on a boolean, a number, a string or an array, which
  have no property of either name.
\<close>

fun get_prop :: "json option \<Rightarrow> string \<Rightarrow> json option" where
  "get_prop None k = None"
| "get_prop (Some JNull) k = None"
| "get_prop (Some (JObj kvs)) k = map_of kvs k"
| "get_prop (Some (JBool b)) k = None"
| "get_prop (Some (JNum r)) k = None"
| "get_prop (Some (JStr s)) k = None"
| "get_prop (Some (JArr vs)) k = None"

text \<open>The truthiness of a value in a condition: \<^verbatim>\<open>undefined\<close>, \<^verbatim>\<open>null\<close>, \<^verbatim>\<open>false\<close>,
  \<^verbatim>\<open>0\<close> and \<^verbatim>\<open>""\<close> are falsy, everything else (every array and object) is truthy.\<close>

fun truthy :: "json option \<Rightarrow> bool" where
  "truthy None = False"
| "truthy (Some JNull) = False"
| "truthy (Some (JBool b)) = b"
| "truthy (Some (JNum r)) = (r \<noteq> 0)"
| "truthy (Some (JStr s)) = (s \<noteq> [])"
| "truthy (Some (JArr vs)) = True"
| "truthy (Some (JObj kvs)) = True"

text \<open>\<^verbatim>\<open>x || 0\<close> on an optional number: \<^verbatim>\<open>undefined\<close> and \<^verbatim>\<open>0\<close> are falsy and give \<open>0\<close>.\<close>

fun or_zero :: "rat option \<Rightarrow> rat" where
  "or_zero None = 0"
| "or_zero (Some p) = (if p = 0 then 0 else p)"

subsection \<open>Sums of numbers\<close>

text \<open>
  A JavaScript number is an IEEE 754 double, and \<^verbatim>\<open>a + b\<close> is the exact sum rounded to
  the nearest double, a tie going to the double with the even significand. A quantity
  counts units, so it is an integer-valued double, an \<open>int\<close> here. Up to \<open>2 ^ 53\<close> in
  magnitude every integer is a double; from there to \<open>2 ^ 54\<close> the doubles are 2 apart,
  then 4, and so on: \<open>ulp n\<close> is the distance between the doubles around \<open>n\<close>, the least
  power of two \<open>u\<close> with \<open>\<bar>n\<bar> < 2 ^ 53 * u\<close>.
\<close>

function ulp_from :: "nat \<Rightarrow> nat \<Rightarrow> nat" where
  "ulp_from u m = (if u = 0 \<or> m < 2 ^ 53 * u then u else ulp_from (2 * u) m)"
  by pat_completeness auto
termination
  by (relation "measure (\<lambda>(u, m). m + 1 - 2 ^ 53 * u)") auto

declare ulp_from.simps [simp del]

definition ulp :: "int \<Rightarrow> int" where
  "ulp n = int (ulp_from 1 (nat \<bar>n\<bar>))"

text \<open>The double nearest to an integer: \<open>n\<close> lies between the doubles \<open>q * u\<close> and
  \<open>(q + 1) * u\<close>, at distance \<open>r\<close> from the lower one; halfway, the even one of \<open>q\<close> and
  \<open>q + 1\<close> is taken.\<close>

definition round_double :: "int \<Rightarrow> int" where
  "round_double n =
     (let u = ulp n; q = n div u; r = n mod u in
      if 2 * r < u then q * u
      else if u < 2 * r then (q + 1) * u
      else if even q then q * u
      else (q + 1) * u)"

text \<open>\<^verbatim>\<open>a + b\<close> on integer-valued doubles. (A sum of magnitude \<open>2 ^ 1024 - 2 ^ 970\<close> or more
  would be \<^verbatim>\<open>Infinity\<close>; \<^verbatim>\<open>quantity + 1\<close> never is, it rounds back to the quantity long
  before.)\<close>

definition js_add :: "int \<Rightarrow> int \<Rightarrow> int" where
  "js_add a b = round_double (a + b)"

text \<open>
  \<^verbatim>\<open>String.prototype.trim\<close> removes white space and line terminators from both ends.
  Characters are bytes here; the white space among them is TAB, LF, VT, FF, CR, SPACE
  and NBSP.
\<close>

definition is_ws :: "char \<Rightarrow> bool" where
  "is_ws c = ((of_char c :: nat) \<in> {9, 10, 11, 12, 13, 32, 160})"

definition trim :: "string \<Rightarrow> string" where
  "trim s = rev (dropWhile is_ws (rev (dropWhile is_ws s)))"

text \<open>
  What a rejected promise or a \<^verbatim>\<open>throw\<close> carries: \<^verbatim>\<open>new Error(msg)\<close>, or the error of a
  failed HTTP request with its message and its stack trace.
\<close>

datatype js_error =
    Error string
  | AxiosError (err_message: string) (err_stack: string)


section \<open>The chat store (useChatStore)\<close>

datatype Role = User | Assistant

record Message =
  role :: Role
  content :: string
  agent :: "string option"
  data :: "json option"

record ChatState =
  messages :: "Message list"

definition greeting :: Message where
  "greeting =
     \<lparr>role = Assistant,
      content = ''Hi! I'm your AI shopping assistant. How can I help you today?'',
      agent = Some ''orchestrator'',
      data = None\<rparr>"

definition initialChatState :: ChatState where
  "initialChatState = \<lparr>messages = [greeting]\<rparr>"

definition addMessage :: "Message \<Rightarrow> ChatState \<Rightarrow> ChatState" where
  "addMessage message state = state\<lparr>messages := messages state @ [message]\<rparr>"

definition setMessages :: "Message list \<Rightarrow> ChatState \<Rightarrow> ChatState" where
  "setMessages ms state = state\<lparr>messages := ms\<rparr>"

definition clearMessages :: "ChatState \<Rightarrow> ChatState" where
  "clearMessages state = state\<lparr>messages := [greeting]\<rparr>"

text \<open>Any number of \<open>addMessage\<close> calls, in order.\<close>

fun addMessages :: "Message list \<Rightarrow> ChatState \<Rightarrow> ChatState" where
  "addMessages [] state = state"
| "addMessages (m # ms) state = addMessages ms (addMessage m state)"

text \<open>The operations of the chat store, and a step of the store under one of them.\<close>

datatype ChatOp = AddMessage Message | SetMessages "Message list" | ClearMessages

fun chatStep :: "ChatOp \<Rightarrow> ChatState \<Rightarrow> ChatState" where
  "chatStep (AddMessage m) state = addMessage m state"
| "chatStep (SetMessages ms) state = setMessages ms state"
| "chatStep ClearMessages state = clearMessages state"

text \<open>The bound a trimmed context window of size \<open>n\<close> would keep.\<close>

definition withinWindow :: "nat \<Rightarrow> ChatState \<Rightarrow> bool" where
  "withinWindow n state = (length (messages state) \<le> n)"


section \<open>The lookbook store (useLookbookStore)\<close>

record LookbookItem =
  product_id :: int
  product_name :: string
  brand_name :: string
  price_from :: "rat option"
  image_url :: "string option"

record LookbookState =
  items :: "LookbookItem list"

text \<open>\<^verbatim>\<open>items.some(i => i.product_id === productId)\<close>\<close>

definition isInLookbook :: "int \<Rightarrow> LookbookState \<Rightarrow> bool" where
  "isInLookbook productId state =
     list_ex (\<lambda>i. LookbookItem.product_id i = productId) (LookbookState.items state)"

text \<open>The product is stored as it is handed in; when its id is already there the
  updater returns \<^verbatim>\<open>state\<close> itself.\<close>

definition addToLookbook :: "LookbookItem \<Rightarrow> LookbookState \<Rightarrow> LookbookState" where
  "addToLookbook product state =
     (if list_ex (\<lambda>i. LookbookItem.product_id i = LookbookItem.product_id product)
           (LookbookState.items state)
      then state
      else state\<lparr>LookbookState.items := LookbookState.items state @ [product]\<rparr>)"

definition removeFromLookbook :: "int \<Rightarrow> LookbookState \<Rightarrow> LookbookState" where
  "removeFromLookbook productId state =
     state\<lparr>LookbookState.items :=
       filter (\<lambda>i. LookbookItem.product_id i \<noteq> productId) (LookbookState.items state)\<rparr>"


text \<open>The operations that change the lookbook, and any sequence of them.\<close>

datatype LookbookOp = AddToLookbook LookbookItem | RemoveFromLookbook int

fun lookbookStep :: "LookbookOp \<Rightarrow> LookbookState \<Rightarrow> LookbookState" where
  "lookbookStep (AddToLookbook product) state = addToLookbook product state"
| "lookbookStep (RemoveFromLookbook productId) state = removeFromLookbook productId state"

fun lookbookRun :: "LookbookOp list \<Rightarrow> LookbookState \<Rightarrow> LookbookState" where
  "lookbookRun [] state = state"
| "lookbookRun (op # ops) state = lookbookRun ops (lookbookStep op state)"


section \<open>The cart store (useCartStore)\<close>

text \<open>The product of the product grid (\<^verbatim>\<open>interface Product\<close>), handed to \<^verbatim>\<open>addToCart\<close>.\<close>

record Product =
  product_id :: int
  product_name :: string
  brand_name :: string
  product_type :: "string option"
  price_from :: "rat option"
  rating :: "rat option"

text \<open>\<^verbatim>\<open>price\<close> is declared a number, and every reader guards it with \<^verbatim>\<open>|| 0\<close>:
  \<open>None\<close> is the missing price. \<^verbatim>\<open>quantity\<close> is an integer-valued double.\<close>

record CartItem =
  product_id :: int
  product_name :: string
  price :: "rat option"
  quantity :: int
  image_url :: "string option"
  brand_name :: string

record CartState =
  items :: "CartItem list"

definition addToCart :: "Product \<Rightarrow> CartState \<Rightarrow> CartState" where
  "addToCart product state =
     (let existing = find (\<lambda>item. CartItem.product_id item = Product.product_id product)
                       (CartState.items state)
      in if existing \<noteq> None then
           state\<lparr>CartState.items :=
             map (\<lambda>item. if CartItem.product_id item = Product.product_id product
                          then item\<lparr>CartItem.quantity := js_add (CartItem.quantity item) 1\<rparr>
                          else item)
                 (CartState.items state)\<rparr>
         else
           state\<lparr>CartState.items := CartState.items state @
             [\<lparr>CartItem.product_id = Product.product_id product,
               CartItem.product_name = Product.product_name product,
               CartItem.price = Some (or_zero (Product.price_from product)),
               CartItem.quantity = 1,
               CartItem.image_url = None,
               CartItem.brand_name = Product.brand_name product\<rparr>]\<rparr>)"

definition removeFromCart :: "int \<Rightarrow> CartState \<Rightarrow> CartState" where
  "removeFromCart productId state =
     state\<lparr>CartState.items :=
       filter (\<lambda>item. CartItem.product_id item \<noteq> productId) (CartState.items state)\<rparr>"

definition updateQuantity :: "int \<Rightarrow> int \<Rightarrow> CartState \<Rightarrow> CartState" where
  "updateQuantity productId q state =
     state\<lparr>CartState.items :=
       map (\<lambda>item. if CartItem.product_id item = productId
                    then item\<lparr>CartItem.quantity := q\<rparr> else item)
           (CartState.items state)\<rparr>"

definition clearCart :: "CartState \<Rightarrow> CartState" where
  "clearCart state = state\<lparr>CartState.items := []\<rparr>"

subsection \<open>checkout\<close>

record LineItem =
  sku_id :: int
  quantity :: int
  unit_price :: rat

record OrderPayload =
  customer_id :: int
  line_items :: "LineItem list"
  payment_method :: string
  shipping_address :: "(string \<times> string) list"

text \<open>The request \<^verbatim>\<open>axios.post(url, payload, {headers: {Authorization: ...}})\<close>.\<close>

record OrderRequest =
  url :: string
  payload :: OrderPayload
  authorization :: string

text \<open>
  \<open>checkout\<close> is asynchronous and has one \<^verbatim>\<open>await\<close>. The order service is a function from
  the request to its outcome: \<open>Inl\<close> a rejection, \<open>Inr\<close> the body of the reply. The result
  is what the promise settles to (\<open>Inl\<close> the error thrown), the cart after it, and the
  requests that were posted.
\<close>

definition checkout ::
  "(OrderRequest \<Rightarrow> js_error + json) \<Rightarrow> int \<Rightarrow> string \<Rightarrow> CartState
     \<Rightarrow> (js_error + json) \<times> CartState \<times> OrderRequest list"
where
  "checkout post customerId token state =
     (let items = CartState.items state in
      if length items = 0 then (Inl (Error ''Cart is empty''), state, [])
      else
        let line_items =
              map (\<lambda>item. \<lparr>sku_id = CartItem.product_id item,
                           LineItem.quantity = CartItem.quantity item,
                           unit_price = or_zero (CartItem.price item)\<rparr>) items;
            payload =
              \<lparr>OrderPayload.customer_id = customerId,
               line_items = line_items,
               payment_method = ''Credit Card'',
               shipping_address =
                 [(''line1'', ''123 Main St''), (''city'', ''New York''), (''state'', ''NY'')]\<rparr>;
            request =
              \<lparr>url = ''http://localhost:8000/api/orders'',
               payload = payload,
               authorization = ''Bearer '' @ token\<rparr>
        in case post request of
             Inl err \<Rightarrow> (Inl err, state, [request])
           | Inr response_data \<Rightarrow> (Inr response_data, state\<lparr>CartState.items := []\<rparr>, [request]))"


section \<open>The chat component (components/ChatInterface.tsx)\<close>

record User =
  customer_id :: int
  email :: string
  first_name :: "string option"
  last_name :: "string option"

text \<open>The body posted to \<^verbatim>\<open>/api/agent/chat\<close>, and the body of the reply.\<close>

record ChatContext =
  cart_items :: "CartItem list"
  page_context :: string

record ChatRequest =
  message :: string
  customer_id :: "int option"
  chat_context :: ChatContext

record ChatResponse =
  response :: string
  agent_name :: "string option"
  data :: "json option"

text \<open>
  Everything \<^verbatim>\<open>handleSend\<close> reads and writes: the three stores, the component's own
  state (\<^verbatim>\<open>input\<close>, \<^verbatim>\<open>isLoading\<close>), \<^verbatim>\<open>window.location.pathname\<close>, whether the parent
  passed \<^verbatim>\<open>onProductsUpdate\<close> and what it was last called with, the browser console, and
  the requests posted to the backend.
\<close>

record World =
  chat :: ChatState
  cart :: CartState
  user :: "User option"
  input :: string
  isLoading :: bool
  pathname :: string
  onProductsUpdate :: bool
  productsShown :: "json option"
  console :: "js_error list"
  posted :: "ChatRequest list"

definition errorText :: string where
  "errorText = ''Sorry, I encountered an error. Please try again.''"

text \<open>
  \<^verbatim>\<open>handleSend\<close> has one \<^verbatim>\<open>await\<close>: the backend is a function from the request to its
  outcome, \<open>Inl\<close> a rejection (caught by the \<^verbatim>\<open>catch\<close> block), \<open>Inr\<close> the body of the reply.
\<close>

text \<open>The object literal handed to \<^verbatim>\<open>axios.post\<close>, built from the values of the render
  in which \<^verbatim>\<open>handleSend\<close> was created.\<close>

definition chatRequest :: "World \<Rightarrow> ChatRequest" where
  "chatRequest w =
     \<lparr>message = input w,
      ChatRequest.customer_id = map_option User.customer_id (user w),
      chat_context = \<lparr>cart_items = CartState.items (cart w), page_context = pathname w\<rparr>\<rparr>"

definition handleSend :: "(ChatRequest \<Rightarrow> js_error + ChatResponse) \<Rightarrow> World \<Rightarrow> World" where
  "handleSend backend w =
     (if trim (input w) = [] \<or> isLoading w then w
      else
        let userMessage = \<lparr>role = User, content = input w, agent = None, Message.data = None\<rparr>;
            w1 = w\<lparr>chat := addMessage userMessage (chat w), input := [], isLoading := True\<rparr>;
            request = chatRequest w;
            w2 = w1\<lparr>posted := posted w1 @ [request]\<rparr>;
            w3 =
              (case backend request of
                 Inr reply \<Rightarrow>
                   let assistantMessage =
                         \<lparr>role = Assistant,
                          content = response reply,
                          agent = agent_name reply,
                          Message.data = ChatResponse.data reply\<rparr>;
                       w4 = w2\<lparr>chat := addMessage assistantMessage (chat w2)\<rparr>;
                       w5 = (if truthy (get_prop (ChatResponse.data reply) ''clear_cart'')
                             then w4\<lparr>cart := clearCart (cart w4)\<rparr> else w4)
                   in if truthy (get_prop (ChatResponse.data reply) ''products'')
                         \<and> onProductsUpdate w5
                      then w5\<lparr>productsShown := get_prop (ChatResponse.data reply) ''products''\<rparr>
                      else w5
               | Inl err \<Rightarrow>
                   w2\<lparr>console := console w2 @ [err],
                      chat := addMessage
                        \<lparr>role = Assistant, content = errorText, agent = Some ''error'',
                         Message.data = None\<rparr> (chat w2)\<rparr>)
        in w3\<lparr>isLoading := False\<rparr>)"


section \<open>Sample data\<close>

text \<open>Concrete stores, replies and failures on which the theorems below are run.\<close>

definition hello :: Message where
  "hello = \<lparr>role = User, content = ''Find me a blue dress'', agent = None, Message.data = None\<rparr>"

definition sampleItem :: CartItem where
  "sampleItem =
     \<lparr>CartItem.product_id = 42, CartItem.product_name = ''Blue Dress'',
      price = Some (1999 / 100), CartItem.quantity = 2, CartItem.image_url = None,
      CartItem.brand_name = ''Acme''\<rparr>"

definition unpricedItem :: CartItem where
  "unpricedItem =
     \<lparr>CartItem.product_id = 43, CartItem.product_name = ''Scarf'',
      price = None, CartItem.quantity = 1, CartItem.image_url = None,
      CartItem.brand_name = ''Acme''\<rparr>"

definition sampleCart :: CartState where
  "sampleCart = \<lparr>CartState.items = [sampleItem, unpricedItem]\<rparr>"

text \<open>\<^verbatim>\<open>updateQuantity(42, 2 ** 53)\<close> on the sample cart.\<close>

definition hugeCart :: CartState where
  "hugeCart = updateQuantity 42 9007199254740992 sampleCart"

definition emptyCart :: CartState where
  "emptyCart = \<lparr>CartState.items = []\<rparr>"

definition blueDress :: Product where
  "blueDress =
     \<lparr>Product.product_id = 42, Product.product_name = ''Blue Dress'',
      Product.brand_name = ''Acme'', product_type = Some ''dress'',
      Product.price_from = Some (1999 / 100), rating = None\<rparr>"

definition redHat :: Product where
  "redHat =
     \<lparr>Product.product_id = 50, Product.product_name = ''Red Hat'',
      Product.brand_name = ''Acme'', product_type = None,
      Product.price_from = None, rating = None\<rparr>"

definition lookDress :: LookbookItem where
  "lookDress =
     \<lparr>LookbookItem.product_id = 42, LookbookItem.product_name = ''Blue Dress'',
      LookbookItem.brand_name = ''Acme'', LookbookItem.price_from = Some (1999 / 100),
      LookbookItem.image_url = None\<rparr>"

definition emptyLookbook :: LookbookState where
  "emptyLookbook = \<lparr>LookbookState.items = []\<rparr>"

definition sampleWorld :: World where
  "sampleWorld =
     \<lparr>chat = initialChatState,
      cart = sampleCart,
      user = Some \<lparr>User.customer_id = 7, email = ''ada@example.com'',
                   first_name = None, last_name = None\<rparr>,
      input = ''Find me a blue dress'',
      isLoading = False,
      pathname = ''/'',
      onProductsUpdate = True,
      productsShown = None,
      console = [],
      posted = []\<rparr>"

definition timeoutError :: js_error where
  "timeoutError = AxiosError ''timeout of 0ms exceeded'' ''at XMLHttpRequest.handleTimeout''"

definition networkError :: js_error where
  "networkError = AxiosError ''Network Error'' ''at XMLHttpRequest.handleError''"

text \<open>A reply that carries the directive, one whose text only talks about it, and
  the body of a created order.\<close>

definition clearingReply :: ChatResponse where
  "clearingReply =
     \<lparr>response = ''Your order is placed.'', agent_name = Some ''checkout'',
      ChatResponse.data = Some (JObj [(''clear_cart'', JBool True)])\<rparr>"

definition talkingReply :: ChatResponse where
  "talkingReply =
     \<lparr>response = ''I will clear your cart now.'', agent_name = Some ''checkout'',
      ChatResponse.data = None\<rparr>"

definition orderCreated :: json where
  "orderCreated = JObj [(''order_id'', JNum 1001)]"


section \<open>Helper lemmas\<close>

lemma addMessages_messages: "messages (addMessages ms state) = messages state @ ms"
  by (induction ms arbitrary: state) (simp_all add: addMessage_def)

lemma sampleWorld_sendable: "trim (input sampleWorld) \<noteq> [] \<and> \<not> isLoading sampleWorld"
  by (simp add: sampleWorld_def trim_def is_ws_def)

lemma find_None_ids:
  "(find (\<lambda>item. CartItem.product_id item = pid) xs = None)
     = (pid \<notin> set (map CartItem.product_id xs))"
  by (induction xs) auto

lemma bump_keeps_ids:
  "map CartItem.product_id
     (map (\<lambda>item. if CartItem.product_id item = pid
                  then item\<lparr>CartItem.quantity := js_add (CartItem.quantity item) 1\<rparr>
                  else item) xs)
   = map CartItem.product_id xs"
  by (induction xs) auto

lemma ulp_small: "\<bar>n\<bar> < 2 ^ 53 \<Longrightarrow> ulp n = 1"
  by (simp add: ulp_def ulp_from.simps [of "Suc 0"] nat_less_iff)

lemma round_double_small: "\<bar>n\<bar> < 2 ^ 53 \<Longrightarrow> round_double n = n"
  by (simp add: round_double_def ulp_small)

lemma round_double_exact:
  assumes "\<bar>n\<bar> \<le> 2 ^ 53"
  shows "round_double n = n"
proof -
  consider "\<bar>n\<bar> < 2 ^ 53" | "n = 2 ^ 53" | "n = - (2 ^ 53)"
    using assms by linarith
  then show ?thesis
  proof cases
    case 1
    then show ?thesis by (rule round_double_small)
  next
    case 2
    have "ulp n = 2"
      unfolding 2 ulp_def by (simp add: ulp_from.simps [of "Suc 0"] ulp_from.simps [of 2])
    then show ?thesis by (simp add: round_double_def 2)
  next
    case 3
    have "ulp n = 2"
      unfolding 3 ulp_def by (simp add: ulp_from.simps [of "Suc 0"] ulp_from.simps [of 2])
    then show ?thesis by (simp add: round_double_def 3)
  qed
qed

lemma js_add_one_exact: "- (2 ^ 53) \<le> q \<Longrightarrow> q < 2 ^ 53 \<Longrightarrow> js_add q 1 = q + 1"
  unfolding js_add_def by (rule round_double_exact) simp

lemma js_add_one_at_2_53: "js_add 9007199254740992 1 = 9007199254740992"
  by (simp add: js_add_def round_double_def ulp_def
        ulp_from.simps [of "Suc 0"] ulp_from.simps [of 2])

lemma list_ex_ids:
  "list_ex (\<lambda>i. LookbookItem.product_id i = pid) xs
     = (pid \<in> set (map LookbookItem.product_id xs))"
  by (induction xs) auto

lemma addToLookbook_distinct:
  "distinct (map LookbookItem.product_id (LookbookState.items state)) \<Longrightarrow>
   distinct (map LookbookItem.product_id (LookbookState.items (addToLookbook product state)))"
  by (simp add: addToLookbook_def list_ex_ids)

lemma removeFromLookbook_distinct:
  "distinct (map LookbookItem.product_id (LookbookState.items state)) \<Longrightarrow>
   distinct (map LookbookItem.product_id (LookbookState.items (removeFromLookbook productId state)))"
  by (simp add: removeFromLookbook_def distinct_map_filter)

lemma lookbookRun_distinct:
  "distinct (map LookbookItem.product_id (LookbookState.items state)) \<Longrightarrow>
   distinct (map LookbookItem.product_id (LookbookState.items (lookbookRun ops state)))"
proof (induction ops arbitrary: state)
  case Nil
  then show ?case by simp
next
  case (Cons op ops)
  have "distinct (map LookbookItem.product_id (LookbookState.items (lookbookStep op state)))"
    using Cons.prems
    by (cases op) (simp_all add: addToLookbook_distinct removeFromLookbook_distinct)
  then show ?case using Cons.IH by simp
qed

lemma checkout_sample:
  "checkout (\<lambda>request. Inr orderCreated) 7 ''tok'' sampleCart =
     (Inr orderCreated, emptyCart,
      [\<lparr>url = ''http://localhost:8000/api/orders'',
        payload =
          \<lparr>OrderPayload.customer_id = 7,
           line_items =
             [\<lparr>sku_id = 42, LineItem.quantity = 2, unit_price = 1999 / 100\<rparr>,
              \<lparr>sku_id = 43, LineItem.quantity = 1, unit_price = 0\<rparr>],
           payment_method = ''Credit Card'',
           shipping_address =
             [(''line1'', ''123 Main St''), (''city'', ''New York''), (''state'', ''NY'')]\<rparr>,
        authorization = ''Bearer tok''\<rparr>])"
  by (simp add: checkout_def sampleCart_def sampleItem_def unpricedItem_def emptyCart_def Let_def)


section \<open>The chat store: window and history\<close>

text \<open>
  Counterexample to C1. The store starts with the greeting, so a window of one message
  holds; one \<open>addMessage\<close> later the list has two messages and the oldest is still the
  first: nothing is trimmed.
\<close>

theorem addMessage_exceeds_window:
  "withinWindow 1 initialChatState
   \<and> \<not> withinWindow 1 (addMessage hello initialChatState)
   \<and> messages (addMessage hello initialChatState) = [greeting, hello]"
  by (simp add: withinWindow_def initialChatState_def addMessage_def)

text \<open>
  C1, as the code has it. The chat store has no window size and \<open>addMessage\<close> never
  trims: each call appends its message at the end, so after any sequence of calls the
  list is the list of before followed by the new messages in order, longer by exactly
  the number of calls, and for every bound \<open>n\<close> some sequence of calls takes the list
  beyond it.
\<close>

theorem addMessage_never_trims:
  "messages (addMessage m state) = messages state @ [m]
   \<and> messages (addMessages ms state) = messages state @ ms
   \<and> length (messages (addMessages ms state)) = length (messages state) + length ms
   \<and> take (length (messages state)) (messages (addMessages ms state)) = messages state
   \<and> (\<exists>ms. \<not> withinWindow n (addMessages ms state))"
proof -
  have "\<not> withinWindow n (addMessages (replicate (Suc n) greeting) state)"
    unfolding withinWindow_def addMessages_messages by simp
  then have "\<exists>ms. \<not> withinWindow n (addMessages ms state)" by blast
  then show ?thesis by (simp add: addMessages_messages addMessage_def)
qed

text \<open>
  Counterexample to C6. \<open>clearMessages\<close> is an operation of the chat store, and after
  it the customer's message is gone: the old list is no prefix of the new one.
\<close>

theorem clearMessages_drops_history:
  "messages (addMessage hello initialChatState) = [greeting, hello]
   \<and> messages (chatStep ClearMessages (addMessage hello initialChatState)) = [greeting]
   \<and> \<not> prefix (messages (addMessage hello initialChatState))
          (messages (chatStep ClearMessages (addMessage hello initialChatState)))"
  by (simp add: initialChatState_def addMessage_def clearMessages_def)

text \<open>
  C6, as the code has it. \<open>addMessage\<close> is append-only: the stored messages stay,
  unchanged and in order, and the new message is added at the end, also over any
  sequence of calls. The other two operations replace the list: \<open>setMessages\<close> by its
  argument, \<open>clearMessages\<close> by the greeting alone.
\<close>

theorem chat_store_operations:
  "messages (chatStep (AddMessage m) state) = messages state @ [m]
   \<and> prefix (messages state) (messages (addMessages ms state))
   \<and> messages (chatStep (SetMessages ms) state) = ms
   \<and> messages (chatStep ClearMessages state) = [greeting]"
  by (simp add: addMessages_messages addMessage_def setMessages_def clearMessages_def)


section \<open>The chat exchange\<close>

text \<open>
  C2. When the request is rejected, \<open>handleSend\<close> leaves the chat history as it was,
  followed by the customer's message and then exactly one assistant message, the canned
  text.
\<close>

theorem handleSend_failure_messages:
  assumes "trim (input w) \<noteq> []" and "\<not> isLoading w"
    and "backend (chatRequest w) = Inl err"
  shows "messages (chat (handleSend backend w)) =
           messages (chat w) @
             [\<lparr>role = User, content = input w, agent = None, Message.data = None\<rparr>,
              \<lparr>role = Assistant, content = ''Sorry, I encountered an error. Please try again.'',
               agent = Some ''error'', Message.data = None\<rparr>]"
  using assms by (simp add: handleSend_def Let_def addMessage_def errorText_def)

theorem handleSend_failure_messages_witness:
  "trim (input sampleWorld) \<noteq> [] \<and> \<not> isLoading sampleWorld
   \<and> messages (chat (handleSend (\<lambda>request. Inl timeoutError) sampleWorld)) =
       [greeting, hello,
        \<lparr>role = Assistant, content = ''Sorry, I encountered an error. Please try again.'',
         agent = Some ''error'', Message.data = None\<rparr>]"
  using handleSend_failure_messages [of sampleWorld "\<lambda>request. Inl timeoutError" timeoutError]
    sampleWorld_sendable
  by (simp add: sampleWorld_def initialChatState_def hello_def)

text \<open>
  C3. After a successful exchange the cart is empty when the reply's \<^verbatim>\<open>data\<close> has a
  truthy \<^verbatim>\<open>clear_cart\<close>, and is the cart of before otherwise; without the field the cart
  store is unchanged; and the reply's text has no part in it: a reply that differs in
  its text alone leaves the same cart.
\<close>

theorem handleSend_clear_cart_directive:
  assumes "trim (input w) \<noteq> []" and "\<not> isLoading w"
    and "backend (chatRequest w) = Inr reply"
  shows "CartState.items (cart (handleSend backend w)) =
           (if truthy (get_prop (ChatResponse.data reply) ''clear_cart'') then []
            else CartState.items (cart w))
         \<and> (get_prop (ChatResponse.data reply) ''clear_cart'' = None
              \<longrightarrow> cart (handleSend backend w) = cart w)
         \<and> (\<forall>backend' t. backend' (chatRequest w) = Inr (reply\<lparr>response := t\<rparr>)
              \<longrightarrow> cart (handleSend backend' w) = cart (handleSend backend w))"
  using assms by (simp add: handleSend_def Let_def clearCart_def)

theorem handleSend_clear_cart_directive_witness:
  "CartState.items (cart (handleSend (\<lambda>request. Inr clearingReply) sampleWorld)) = []
   \<and> CartState.items (cart (handleSend (\<lambda>request. Inr talkingReply) sampleWorld)) =
       [sampleItem, unpricedItem]"
proof -
  have s1: "trim (input sampleWorld) \<noteq> []" and s2: "\<not> isLoading sampleWorld"
    using sampleWorld_sendable by simp_all
  note clearing =
    handleSend_clear_cart_directive
      [of sampleWorld "\<lambda>request. Inr clearingReply" clearingReply, OF s1 s2 refl, THEN conjunct1]
  note talking =
    handleSend_clear_cart_directive
      [of sampleWorld "\<lambda>request. Inr talkingReply" talkingReply, OF s1 s2 refl, THEN conjunct1]
  have "truthy (get_prop (ChatResponse.data clearingReply) ''clear_cart'')"
    by (simp add: clearingReply_def)
  moreover have "\<not> truthy (get_prop (ChatResponse.data talkingReply) ''clear_cart'')"
    by (simp add: talkingReply_def)
  moreover have "CartState.items (cart sampleWorld) = [sampleItem, unpricedItem]"
    by (simp add: sampleWorld_def sampleCart_def)
  ultimately show ?thesis using clearing talking by simp
qed

text \<open>
  Counterexample to C4. An input of one space is not empty, and no request is in
  flight, yet \<open>handleSend\<close> posts nothing and appends nothing: the guard tests the
  trimmed input.
\<close>

theorem handleSend_blank_input_posts_nothing:
  "input (sampleWorld\<lparr>input := '' ''\<rparr>) \<noteq> []
   \<and> \<not> isLoading (sampleWorld\<lparr>input := '' ''\<rparr>)
   \<and> posted (handleSend (\<lambda>request. Inr talkingReply) (sampleWorld\<lparr>input := '' ''\<rparr>)) = []
   \<and> messages (chat (handleSend (\<lambda>request. Inr talkingReply) (sampleWorld\<lparr>input := '' ''\<rparr>)))
       = [greeting]"
  by (simp add: handleSend_def sampleWorld_def trim_def is_ws_def initialChatState_def)

text \<open>
  C4, as the code has it. For an input that is not blank once trimmed, sent while no
  request is in flight, \<open>handleSend\<close> posts exactly one request: the input, the customer
  id of the signed-in user if there is one, and the cart items and path as context. When
  the backend replies, the assistant message appended after the customer's carries the
  reply's text, agent name and data. A blank input, or a send while loading, changes
  nothing.
\<close>

theorem handleSend_chat_boundary:
  "(trim (input w) \<noteq> [] \<and> \<not> isLoading w \<longrightarrow>
      posted (handleSend backend w) =
        posted w @
          [\<lparr>message = input w,
            ChatRequest.customer_id = map_option User.customer_id (user w),
            chat_context =
              \<lparr>cart_items = CartState.items (cart w), page_context = pathname w\<rparr>\<rparr>]
      \<and> (\<forall>reply. backend (chatRequest w) = Inr reply \<longrightarrow>
            messages (chat (handleSend backend w)) =
              messages (chat w) @
                [\<lparr>role = User, content = input w, agent = None, Message.data = None\<rparr>,
                 \<lparr>role = Assistant, content = response reply, agent = agent_name reply,
                  Message.data = ChatResponse.data reply\<rparr>]))
   \<and> (trim (input w) = [] \<or> isLoading w \<longrightarrow> handleSend backend w = w)"
  by (auto simp add: handleSend_def Let_def addMessage_def chatRequest_def split: sum.splits)

theorem handleSend_chat_boundary_witness:
  "posted (handleSend (\<lambda>request. Inr clearingReply) sampleWorld) =
     [\<lparr>message = ''Find me a blue dress'',
       ChatRequest.customer_id = Some 7,
       chat_context = \<lparr>cart_items = [sampleItem, unpricedItem], page_context = ''/''\<rparr>\<rparr>]
   \<and> messages (chat (handleSend (\<lambda>request. Inr clearingReply) sampleWorld)) =
       [greeting, hello,
        \<lparr>role = Assistant, content = ''Your order is placed.'', agent = Some ''checkout'',
         Message.data = Some (JObj [(''clear_cart'', JBool True)])\<rparr>]
   \<and> handleSend (\<lambda>request. Inr clearingReply) (sampleWorld\<lparr>isLoading := True\<rparr>) =
       sampleWorld\<lparr>isLoading := True\<rparr>"
proof -
  note sent =
    handleSend_chat_boundary
      [where w = sampleWorld and backend = "\<lambda>request. Inr clearingReply", THEN conjunct1,
       rule_format, OF sampleWorld_sendable]
  note busy =
    handleSend_chat_boundary
      [where w = "sampleWorld\<lparr>isLoading := True\<rparr>"
         and backend = "\<lambda>request. Inr clearingReply", THEN conjunct2, rule_format]
  have "posted (handleSend (\<lambda>request. Inr clearingReply) sampleWorld) =
     [\<lparr>message = ''Find me a blue dress'',
       ChatRequest.customer_id = Some 7,
       chat_context = \<lparr>cart_items = [sampleItem, unpricedItem], page_context = ''/''\<rparr>\<rparr>]"
    using sent [THEN conjunct1] by (simp add: sampleWorld_def sampleCart_def)
  moreover have "messages (chat (handleSend (\<lambda>request. Inr clearingReply) sampleWorld)) =
       [greeting, hello,
        \<lparr>role = Assistant, content = ''Your order is placed.'', agent = Some ''checkout'',
         Message.data = Some (JObj [(''clear_cart'', JBool True)])\<rparr>]"
    using sent [THEN conjunct2, rule_format, of clearingReply]
    by (simp add: sampleWorld_def initialChatState_def hello_def clearingReply_def)
  moreover have "handleSend (\<lambda>request. Inr clearingReply) (sampleWorld\<lparr>isLoading := True\<rparr>) =
       sampleWorld\<lparr>isLoading := True\<rparr>"
    using busy by simp
  ultimately show ?thesis by blast
qed

text \<open>
  C7. The error of a rejected request reaches the console and nothing else: two
  exchanges that fail with any two errors end in the same chat history and, the console
  apart, in the same state, and the message appended last is the fixed canned one.
\<close>

theorem handleSend_error_text_independent:
  assumes "b1 (chatRequest w) = Inl e1" and "b2 (chatRequest w) = Inl e2"
  shows "chat (handleSend b1 w) = chat (handleSend b2 w)
         \<and> (handleSend b1 w)\<lparr>console := []\<rparr> = (handleSend b2 w)\<lparr>console := []\<rparr>
         \<and> (trim (input w) \<noteq> [] \<and> \<not> isLoading w \<longrightarrow>
              last (messages (chat (handleSend b1 w))) =
                \<lparr>role = Assistant,
                 content = ''Sorry, I encountered an error. Please try again.'',
                 agent = Some ''error'', Message.data = None\<rparr>)"
  using assms by (simp add: handleSend_def Let_def addMessage_def errorText_def)

theorem handleSend_error_text_independent_witness:
  "timeoutError \<noteq> networkError
   \<and> chat (handleSend (\<lambda>request. Inl timeoutError) sampleWorld) =
       chat (handleSend (\<lambda>request. Inl networkError) sampleWorld)
   \<and> content (last (messages (chat (handleSend (\<lambda>request. Inl timeoutError) sampleWorld)))) =
       ''Sorry, I encountered an error. Please try again.''"
proof -
  note indep =
    handleSend_error_text_independent
      [of "\<lambda>request. Inl timeoutError" sampleWorld timeoutError
          "\<lambda>request. Inl networkError" networkError, OF refl refl]
  have "timeoutError \<noteq> networkError"
    by (simp add: timeoutError_def networkError_def)
  moreover have "chat (handleSend (\<lambda>request. Inl timeoutError) sampleWorld) =
      chat (handleSend (\<lambda>request. Inl networkError) sampleWorld)"
    using indep by (rule conjunct1)
  moreover have "last (messages (chat (handleSend (\<lambda>request. Inl timeoutError) sampleWorld))) =
      \<lparr>role = Assistant, content = ''Sorry, I encountered an error. Please try again.'',
       agent = Some ''error'', Message.data = None\<rparr>"
    using indep sampleWorld_sendable by blast
  then have "content (last (messages (chat (handleSend (\<lambda>request. Inl timeoutError) sampleWorld))))
      = ''Sorry, I encountered an error. Please try again.''"
    by simp
  ultimately show ?thesis by blast
qed


section \<open>The cart\<close>

text \<open>
  C5. With a cart that is not empty, \<open>checkout\<close> posts one order whose line items are
  the cart's items in order: the \<^verbatim>\<open>sku_id\<close> is the item's \<^verbatim>\<open>product_id\<close>, the quantity its
  quantity, and the \<^verbatim>\<open>unit_price\<close> its price, or 0 when the price is missing.
\<close>

theorem checkout_line_items_identity:
  assumes "CartState.items state \<noteq> []"
  shows "case checkout post customerId token state of
           (result, state', requests) \<Rightarrow>
             length requests = 1
             \<and> length (line_items (payload (hd requests))) = length (CartState.items state)
             \<and> (\<forall>i < length (CartState.items state).
                   sku_id (line_items (payload (hd requests)) ! i) =
                     CartItem.product_id (CartState.items state ! i)
                 \<and> LineItem.quantity (line_items (payload (hd requests)) ! i) =
                     CartItem.quantity (CartState.items state ! i)
                 \<and> unit_price (line_items (payload (hd requests)) ! i) =
                     (case price (CartState.items state ! i) of None \<Rightarrow> 0 | Some p \<Rightarrow> p))"
  using assms
  by (auto simp add: checkout_def Let_def split: sum.splits option.splits)

theorem checkout_line_items_identity_witness:
  "CartState.items sampleCart \<noteq> []
   \<and> map sku_id (line_items (payload (hd (snd (snd
         (checkout (\<lambda>request. Inr orderCreated) 7 ''tok'' sampleCart)))))) = [42, 43]
   \<and> map unit_price (line_items (payload (hd (snd (snd
         (checkout (\<lambda>request. Inr orderCreated) 7 ''tok'' sampleCart)))))) = [1999 / 100, 0]"
proof -
  have ne: "CartState.items sampleCart \<noteq> []" by (simp add: sampleCart_def)
  note li = checkout_line_items_identity
              [where state = sampleCart and post = "\<lambda>request. Inr orderCreated"
                 and customerId = 7 and token = "''tok''", OF ne]
  show ?thesis using ne li by (simp add: checkout_sample)
qed

text \<open>
  C8. \<open>checkout\<close> on an empty cart throws \<^verbatim>\<open>Cart is empty\<close>, posts nothing and leaves the
  cart store as it is. On any other cart it posts one request and settles to that
  request's outcome. Whenever it throws, the cart store is unchanged; whenever it returns,
  the cart is empty.
\<close>

theorem checkout_atomic:
  "case checkout post customerId token state of
     (result, state', requests) \<Rightarrow>
       (CartState.items state = [] \<longrightarrow>
          result = Inl (Error ''Cart is empty'') \<and> state' = state \<and> requests = [])
     \<and> (CartState.items state \<noteq> [] \<longrightarrow>
          (\<exists>request. requests = [request] \<and> result = post request))
     \<and> (\<forall>err. result = Inl err \<longrightarrow> state' = state)
     \<and> (\<forall>body. result = Inr body \<longrightarrow> CartState.items state' = [])"
  by (auto simp add: checkout_def Let_def split: sum.splits)

theorem checkout_atomic_witness:
  "checkout (\<lambda>request. Inr orderCreated) 7 ''tok'' emptyCart =
      (Inl (Error ''Cart is empty''), emptyCart, [])
   \<and> fst (checkout (\<lambda>request. Inl timeoutError) 7 ''tok'' sampleCart) = Inl timeoutError
   \<and> fst (snd (checkout (\<lambda>request. Inl timeoutError) 7 ''tok'' sampleCart)) = sampleCart
   \<and> fst (checkout (\<lambda>request. Inr orderCreated) 7 ''tok'' sampleCart) = Inr orderCreated
   \<and> CartState.items (fst (snd (checkout (\<lambda>request. Inr orderCreated) 7 ''tok'' sampleCart))) = []"
proof -
  have e: "CartState.items emptyCart = []" by (simp add: emptyCart_def)
  have ne: "CartState.items sampleCart \<noteq> []" by (simp add: sampleCart_def)
  have "checkout (\<lambda>request. Inr orderCreated) 7 ''tok'' emptyCart =
      (Inl (Error ''Cart is empty''), emptyCart, [])"
    using e checkout_atomic [where post = "\<lambda>request. Inr orderCreated" and customerId = 7 and token = "''tok''" and state = emptyCart]
    by (cases "checkout (\<lambda>request. Inr orderCreated) 7 ''tok'' emptyCart") simp
  moreover have "fst (checkout (\<lambda>request. Inl timeoutError) 7 ''tok'' sampleCart) = Inl timeoutError
      \<and> fst (snd (checkout (\<lambda>request. Inl timeoutError) 7 ''tok'' sampleCart)) = sampleCart"
    using ne checkout_atomic [where post = "\<lambda>request. Inl timeoutError" and customerId = 7 and token = "''tok''" and state = sampleCart]
    by (cases "checkout (\<lambda>request. Inl timeoutError) 7 ''tok'' sampleCart") auto
  moreover have "fst (checkout (\<lambda>request. Inr orderCreated) 7 ''tok'' sampleCart) = Inr orderCreated
      \<and> CartState.items (fst (snd (checkout (\<lambda>request. Inr orderCreated) 7 ''tok'' sampleCart))) = []"
    using ne checkout_atomic [where post = "\<lambda>request. Inr orderCreated" and customerId = 7 and token = "''tok''" and state = sampleCart]
    by (cases "checkout (\<lambda>request. Inr orderCreated) 7 ''tok'' sampleCart") auto
  ultimately show ?thesis by blast
qed

text \<open>
  Counterexample to C9. After \<^verbatim>\<open>updateQuantity(42, 2 ** 53)\<close> the ids are pairwise
  distinct and the item of product 42 has quantity \<open>2 ^ 53\<close>; \<open>addToCart\<close> of that
  product leaves the quantity at \<open>2 ^ 53\<close>: the double sum \<^verbatim>\<open>2 ** 53 + 1\<close> is \<^verbatim>\<open>2 ** 53\<close>.
\<close>

theorem addToCart_no_increment_at_2_53:
  "distinct (map CartItem.product_id (CartState.items hugeCart))
   \<and> map CartItem.product_id (CartState.items hugeCart) = [42, 43]
   \<and> map CartItem.quantity (CartState.items hugeCart) = [9007199254740992, 1]
   \<and> Product.product_id blueDress = 42
   \<and> map CartItem.quantity (CartState.items (addToCart blueDress hugeCart))
       = [9007199254740992, 1]"
  by (simp add: hugeCart_def updateQuantity_def addToCart_def sampleCart_def sampleItem_def
        unpricedItem_def blueDress_def js_add_one_at_2_53)

text \<open>
  C9, as the code has it. On a cart whose product ids are pairwise distinct, \<open>addToCart\<close>
  of a product that is in the cart keeps every item in its place and leaves the items of
  other ids as they are; the item with that id keeps its other fields and gets the
  quantity \<^verbatim>\<open>quantity + 1\<close>, the sum of doubles, which is the quantity plus exactly 1 when
  the quantity is an integer from \<open>- 2 ^ 53\<close> up to, not including, \<open>2 ^ 53\<close>. \<open>addToCart\<close>
  of a product that is not in the cart appends one item for it with quantity 1. Either
  way the ids stay pairwise distinct, and exactly one item has the product's id.
\<close>

theorem addToCart_unique_ids:
  assumes "distinct (map CartItem.product_id (CartState.items state))"
  shows "distinct (map CartItem.product_id (CartState.items (addToCart product state)))
     \<and> (Product.product_id product \<in> set (map CartItem.product_id (CartState.items state)) \<longrightarrow>
          length (CartState.items (addToCart product state)) = length (CartState.items state)
          \<and> (\<forall>i < length (CartState.items state).
               (CartItem.product_id (CartState.items state ! i) \<noteq> Product.product_id product \<longrightarrow>
                  CartState.items (addToCart product state) ! i = CartState.items state ! i)
             \<and> (CartItem.product_id (CartState.items state ! i) = Product.product_id product \<longrightarrow>
                  CartState.items (addToCart product state) ! i =
                    (CartState.items state ! i)
                      \<lparr>CartItem.quantity := js_add (CartItem.quantity (CartState.items state ! i)) 1\<rparr>
                  \<and> (- (2 ^ 53) \<le> CartItem.quantity (CartState.items state ! i)
                       \<and> CartItem.quantity (CartState.items state ! i) < 2 ^ 53 \<longrightarrow>
                      CartState.items (addToCart product state) ! i =
                        (CartState.items state ! i)
                          \<lparr>CartItem.quantity :=
                             CartItem.quantity (CartState.items state ! i) + 1\<rparr>))))
     \<and> (Product.product_id product \<notin> set (map CartItem.product_id (CartState.items state)) \<longrightarrow>
          CartState.items (addToCart product state) =
            CartState.items state @
              [\<lparr>CartItem.product_id = Product.product_id product,
                CartItem.product_name = Product.product_name product,
                price = Some (case Product.price_from product of None \<Rightarrow> 0 | Some p \<Rightarrow> p),
                CartItem.quantity = 1,
                CartItem.image_url = None,
                CartItem.brand_name = Product.brand_name product\<rparr>])
     \<and> length (filter (\<lambda>item. CartItem.product_id item = Product.product_id product)
                  (CartState.items (addToCart product state))) = 1"
proof (cases "find (\<lambda>item. CartItem.product_id item = Product.product_id product)
                (CartState.items state)")
  case None
  then have notin: "Product.product_id product \<notin> set (map CartItem.product_id (CartState.items state))"
    by (simp add: find_None_ids)
  then have "filter (\<lambda>item. CartItem.product_id item = Product.product_id product)
               (CartState.items state) = []"
    unfolding filter_empty_conv by (metis imageI list.set_map)
  with None notin assms show ?thesis
    by (auto simp add: addToCart_def split: option.splits)
next
  case (Some existing)
  then have isin: "Product.product_id product \<in> set (map CartItem.product_id (CartState.items state))"
    using find_None_ids [of "Product.product_id product" "CartState.items state"] by simp
  let ?f = "\<lambda>item. if CartItem.product_id item = Product.product_id product
                  then item\<lparr>CartItem.quantity := js_add (CartItem.quantity item) 1\<rparr> else item"
  have upd: "CartState.items (addToCart product state) = map ?f (CartState.items state)"
    using Some by (simp add: addToCart_def)
  have ids: "map CartItem.product_id (map ?f (CartState.items state))
               = map CartItem.product_id (CartState.items state)"
    by (rule bump_keeps_ids)
  have "length (filter (\<lambda>item. CartItem.product_id item = Product.product_id product)
                 (map ?f (CartState.items state)))
        = length (filter (\<lambda>k. k = Product.product_id product)
                 (map CartItem.product_id (map ?f (CartState.items state))))"
    by (simp only: filter_map length_map comp_def)
  also have "\<dots> = length (filter (\<lambda>k. k = Product.product_id product)
                 (map CartItem.product_id (CartState.items state)))"
    by (simp only: ids)
  also have "\<dots> = 1"
    using assms isin distinct_length_filter [of "map CartItem.product_id (CartState.items state)"
                         "\<lambda>k. k = Product.product_id product"]
    by (simp add: Collect_conv_if Int_def)
  finally have one: "length (filter (\<lambda>item. CartItem.product_id item = Product.product_id product)
                 (map ?f (CartState.items state))) = 1" .
  have dist: "distinct (map CartItem.product_id (CartState.items (addToCart product state)))"
    using assms by (simp only: upd ids)
  have len: "length (CartState.items (addToCart product state)) = length (CartState.items state)"
    by (simp only: upd length_map)
  have nth: "\<forall>i < length (CartState.items state).
               CartState.items (addToCart product state) ! i = ?f (CartState.items state ! i)"
    by (simp only: upd nth_map) simp
  have pos: "\<forall>i < length (CartState.items state).
               (CartItem.product_id (CartState.items state ! i) \<noteq> Product.product_id product \<longrightarrow>
                  CartState.items (addToCart product state) ! i = CartState.items state ! i)
             \<and> (CartItem.product_id (CartState.items state ! i) = Product.product_id product \<longrightarrow>
                  CartState.items (addToCart product state) ! i =
                    (CartState.items state ! i)
                      \<lparr>CartItem.quantity := js_add (CartItem.quantity (CartState.items state ! i)) 1\<rparr>
                  \<and> (- (2 ^ 53) \<le> CartItem.quantity (CartState.items state ! i)
                       \<and> CartItem.quantity (CartState.items state ! i) < 2 ^ 53 \<longrightarrow>
                      CartState.items (addToCart product state) ! i =
                        (CartState.items state ! i)
                          \<lparr>CartItem.quantity :=
                             CartItem.quantity (CartState.items state ! i) + 1\<rparr>))"
    using nth by (simp add: js_add_one_exact)
  have cnt: "length (filter (\<lambda>item. CartItem.product_id item = Product.product_id product)
                  (CartState.items (addToCart product state))) = 1"
    using one by (simp only: upd)
  show ?thesis
    using dist len pos cnt isin by blast
qed

theorem addToCart_unique_ids_witness:
  "distinct (map CartItem.product_id (CartState.items sampleCart))
   \<and> CartState.items (addToCart blueDress sampleCart) =
       [sampleItem\<lparr>CartItem.quantity := 3\<rparr>, unpricedItem]
   \<and> map CartItem.product_id (CartState.items (addToCart redHat sampleCart)) = [42, 43, 50]
   \<and> map CartItem.quantity (CartState.items (addToCart redHat sampleCart)) = [2, 1, 1]"
proof -
  have its: "CartState.items sampleCart = [sampleItem, unpricedItem]"
    by (simp add: sampleCart_def)
  have d: "distinct (map CartItem.product_id (CartState.items sampleCart))"
    by (simp add: its sampleItem_def unpricedItem_def)
  have isin: "Product.product_id blueDress
                \<in> set (map CartItem.product_id (CartState.items sampleCart))"
    by (simp add: its sampleItem_def blueDress_def)
  have notin: "Product.product_id redHat
                \<notin> set (map CartItem.product_id (CartState.items sampleCart))"
    by (simp add: its sampleItem_def unpricedItem_def redHat_def)
  note dress =
    addToCart_unique_ids [where state = sampleCart and product = blueDress, OF d,
      THEN conjunct2, THEN conjunct1, rule_format, OF isin]
  note hat =
    addToCart_unique_ids [where state = sampleCart and product = redHat, OF d,
      THEN conjunct2, THEN conjunct2, THEN conjunct1, rule_format, OF notin]
  have len: "length (CartState.items (addToCart blueDress sampleCart)) = 2"
    using dress [THEN conjunct1] by (simp add: its)
  have i0: "(0::nat) < length (CartState.items sampleCart)"
    and i1: "(1::nat) < length (CartState.items sampleCart)"
    by (simp_all add: its)
  have id0: "CartItem.product_id (CartState.items sampleCart ! 0) = Product.product_id blueDress"
    by (simp add: its sampleItem_def blueDress_def)
  have id1: "CartItem.product_id (CartState.items sampleCart ! 1) \<noteq> Product.product_id blueDress"
    by (simp add: its unpricedItem_def blueDress_def)
  have range0: "- (2 ^ 53) \<le> CartItem.quantity (CartState.items sampleCart ! 0)
                \<and> CartItem.quantity (CartState.items sampleCart ! 0) < 2 ^ 53"
    by (simp add: its sampleItem_def)
  have first: "CartState.items (addToCart blueDress sampleCart) ! 0 =
                 sampleItem\<lparr>CartItem.quantity := 3\<rparr>"
    using dress [THEN conjunct2, rule_format, OF i0, THEN conjunct2, rule_format, OF id0,
                 THEN conjunct2, rule_format, OF range0]
    by (simp add: its sampleItem_def)
  have second: "CartState.items (addToCart blueDress sampleCart) ! 1 = unpricedItem"
    using dress [THEN conjunct2, rule_format, OF i1, THEN conjunct1, rule_format, OF id1]
    by (simp add: its)
  have "CartState.items (addToCart blueDress sampleCart) =
       [sampleItem\<lparr>CartItem.quantity := 3\<rparr>, unpricedItem]"
    by (rule nth_equalityI) (use len first second in \<open>auto dest!: less_2_cases\<close>)
  moreover have "CartState.items (addToCart redHat sampleCart) =
      [sampleItem, unpricedItem,
        \<lparr>CartItem.product_id = 50, CartItem.product_name = ''Red Hat'', price = Some 0,
          CartItem.quantity = 1, CartItem.image_url = None, CartItem.brand_name = ''Acme''\<rparr>]"
    using hat by (simp add: its redHat_def)
  ultimately show ?thesis
    using d by (simp add: sampleItem_def unpricedItem_def)
qed


section \<open>The lookbook\<close>

text \<open>
  C10. \<open>addToLookbook\<close> of a product whose id is in the lookbook returns the state
  itself, so adding twice is adding once; after it \<open>isInLookbook\<close> of the id holds; and
  product ids that are pairwise distinct stay so, after one \<open>addToLookbook\<close> and after
  any sequence of additions and removals.
\<close>

theorem addToLookbook_idempotent:
  "(isInLookbook (LookbookItem.product_id product) state \<longrightarrow> addToLookbook product state = state)
   \<and> addToLookbook product (addToLookbook product state) = addToLookbook product state
   \<and> (distinct (map LookbookItem.product_id (LookbookState.items state)) \<longrightarrow>
        distinct (map LookbookItem.product_id (LookbookState.items (addToLookbook product state)))
        \<and> distinct (map LookbookItem.product_id (LookbookState.items (lookbookRun ops state))))
   \<and> isInLookbook (LookbookItem.product_id product) (addToLookbook product state)"
  using lookbookRun_distinct [of state ops]
  by (simp add: isInLookbook_def addToLookbook_def list_ex_ids)

theorem addToLookbook_idempotent_witness:
  "\<not> isInLookbook 42 emptyLookbook
   \<and> LookbookState.items (addToLookbook lookDress emptyLookbook) = [lookDress]
   \<and> isInLookbook 42 (addToLookbook lookDress emptyLookbook)
   \<and> addToLookbook lookDress (addToLookbook lookDress emptyLookbook) =
       addToLookbook lookDress emptyLookbook
   \<and> distinct (map LookbookItem.product_id
        (LookbookState.items (addToLookbook lookDress (addToLookbook lookDress emptyLookbook))))"
proof -
  note idem = addToLookbook_idempotent [where product = lookDress and state = emptyLookbook]
  note again = addToLookbook_idempotent
                 [where product = lookDress and state = "addToLookbook lookDress emptyLookbook"]
  have id: "LookbookItem.product_id lookDress = 42" by (simp add: lookDress_def)
  have "\<not> isInLookbook 42 emptyLookbook"
    by (simp add: isInLookbook_def emptyLookbook_def)
  moreover have one: "LookbookState.items (addToLookbook lookDress emptyLookbook) = [lookDress]"
    by (simp add: addToLookbook_def emptyLookbook_def)
  moreover have "isInLookbook 42 (addToLookbook lookDress emptyLookbook)"
    using idem id by simp
  moreover have "addToLookbook lookDress (addToLookbook lookDress emptyLookbook) =
       addToLookbook lookDress emptyLookbook"
    using idem by blast
  moreover have "distinct (map LookbookItem.product_id
        (LookbookState.items (addToLookbook lookDress (addToLookbook lookDress emptyLookbook))))"
    using again one by simp
  ultimately show ?thesis by blast
qed

end
